theory Spec2Isabelle
  imports Main "HOL-Library.Sublist"
begin

section \<open>Locale-aware routing: the model of \<^verbatim>\<open>src/domain/index.tsx\<close>\<close>

text \<open>
  The class \<^verbatim>\<open>LuwioRouter\<close> wraps a router engine (the TanStack router, a third-party
  package) behind operations that address a route by a logical key and a language.
  JavaScript strings are modelled as \<open>string\<close>, arrays as lists, the
  \<^verbatim>\<open>Record<string, _>\<close> of definitions as the map of its own properties together with the
  members it inherits from \<^verbatim>\<open>Object.prototype\<close>, which a property read also finds. The
  render payload of a definition is opaque to the class and is the type parameter \<open>'c\<close>.
\<close>

subsection \<open>Configuration types\<close>

text \<open>\<^verbatim>\<open>RouteDefinitionI\<close>: the component to render.\<close>

record 'c RouteDefinitionI =
  component :: 'c

text \<open>
  The property read \<^verbatim>\<open>definitions[key]\<close>. The definitions object is an ordinary object
  (an object literal in the README), so a key that is no own property is looked up in
  \<^verbatim>\<open>Object.prototype\<close>, whose property names are the following.
\<close>

definition objectPrototypeKeys :: "string list" where
  "objectPrototypeKeys =
     [''constructor'', ''__defineGetter__'', ''__defineSetter__'', ''hasOwnProperty'',
      ''__lookupGetter__'', ''__lookupSetter__'', ''isPrototypeOf'',
      ''propertyIsEnumerable'', ''toString'', ''valueOf'', ''__proto__'',
      ''toLocaleString'']"

text \<open>
  What the read yields when it is not \<^verbatim>\<open>undefined\<close>: a definition of the configuration,
  or a member of \<^verbatim>\<open>Object.prototype\<close>. Every such member is a function or an object:
  it is truthy, and it has no property \<^verbatim>\<open>component\<close>.
\<close>

datatype 'c PropertyValue = OwnDefinition "'c RouteDefinitionI" | InheritedMember

definition getDefinition ::
  "(string \<rightharpoonup> 'c RouteDefinitionI) \<Rightarrow> string \<Rightarrow> 'c PropertyValue option" where
  "getDefinition defs key =
     (case defs key of
        Some d \<Rightarrow> Some (OwnDefinition d)
      | None \<Rightarrow> if key \<in> set objectPrototypeKeys then Some InheritedMember else None)"

text \<open>The read \<^verbatim>\<open>routeConfig.component\<close>: \<open>None\<close> is \<^verbatim>\<open>undefined\<close>.\<close>

fun componentOf :: "'c PropertyValue \<Rightarrow> 'c option" where
  "componentOf (OwnDefinition d) = Some (component d)"
| "componentOf InheritedMember = None"

text \<open>\<^verbatim>\<open>RouteLocaleI\<close>: fields \<^verbatim>\<open>definition\<close>, \<^verbatim>\<open>language\<close>, \<^verbatim>\<open>path\<close>.\<close>

record RouteLocaleI =
  rl_definition :: string
  rl_language :: string
  rl_path :: string

text \<open>
  \<^verbatim>\<open>LocaleAwareRouteConfigI\<close>. The field \<^verbatim>\<open>root\<close> is the engine's root route, under which
  every compiled route is registered; no operation of the class reads it otherwise, and
  it is left out of the record.
\<close>

record 'c LocaleAwareRouteConfigI =
  definitions :: "string \<rightharpoonup> 'c RouteDefinitionI"
  routes :: "RouteLocaleI list"
  defaultLanguage :: string
  supportedLanguages :: "string list"

text \<open>\<^verbatim>\<open>LanguageAwareRoute\<close>: the selector \<^verbatim>\<open>{key, language}\<close>.\<close>

record LanguageAwareRoute =
  lar_key :: string
  lar_language :: string

text \<open>Query and parameter objects (\<^verbatim>\<open>Record<string, unknown>\<close>) and the state payload.\<close>

type_synonym JsRecord = "(string \<times> string) list"

datatype NavigateMethod = Replace | Push

text \<open>\<^verbatim>\<open>NavigateParams\<close>: \<^verbatim>\<open>to\<close> is required, every other field is optional.\<close>

record NavigateParams =
  nav_to :: LanguageAwareRoute
  nav_from :: "LanguageAwareRoute option"
  nav_query :: "JsRecord option"
  nav_params :: "JsRecord option"
  nav_hash :: "string option"
  nav_method :: "NavigateMethod option"
  nav_state :: "JsRecord option"

text \<open>\<^verbatim>\<open>HrefParams\<close>.\<close>

record HrefParams =
  href_key :: string
  href_language :: string
  href_query :: "JsRecord option"
  href_params :: "JsRecord option"
  href_hash :: "string option"

subsection \<open>The router engine\<close>

text \<open>
  The engine's route object. The class reads only \<^verbatim>\<open>fullPath\<close> of it; the component it
  was created with (\<open>None\<close> when that was \<^verbatim>\<open>undefined\<close>) is kept so that two routes of
  one path stay distinguishable.
\<close>

record 'c Route =
  fullPath :: string
  route_component :: "'c option"

text \<open>The options object handed to \<^verbatim>\<open>buildLocation\<close>.\<close>

record LocationOptions =
  loc_to :: string
  loc_search :: "JsRecord option"
  loc_params :: "JsRecord option"
  loc_hash :: "string option"

text \<open>The options object handed to the engine's \<^verbatim>\<open>navigate\<close>.\<close>

record NavigateOptions =
  opt_to :: string
  opt_from :: "string option"
  opt_search :: "JsRecord option"
  opt_params :: "JsRecord option"
  opt_hash :: "string option"
  opt_method :: "NavigateMethod option"
  opt_state :: "JsRecord option"

text \<open>
  The engine instance, as far as the class uses it: the index \<^verbatim>\<open>routesByPath\<close>, the
  pathname of \<^verbatim>\<open>__store.state.location\<close>, the \<^verbatim>\<open>href\<close> that \<^verbatim>\<open>buildLocation\<close> computes
  for an options object, and the calls its \<^verbatim>\<open>navigate\<close> primitive has received, oldest
  first.
\<close>

record 'c Router =
  routesByPath :: "string \<rightharpoonup> 'c Route"
  location_pathname :: string
  buildLocation :: "LocationOptions \<Rightarrow> string"
  navigations :: "NavigateOptions list"

text \<open>
  Modelled from the spec: the engine's \<^verbatim>\<open>createRoute\<close>, which is not part of this
  repository. The spec (3, 4.2) has the engine produce the concrete route from the compiled
  concrete path, so the route's full path is the path it was created with.
\<close>

definition createRoute :: "string \<Rightarrow> 'c option \<Rightarrow> 'c Route" where
  "createRoute p c = \<lparr>fullPath = p, route_component = c\<rparr>"

text \<open>
  Modelled from the spec: the engine's \<^verbatim>\<open>createRouter\<close> over the children added to the
  root, which is not part of this repository. The spec (4.2) has compilation yield an
  index from concrete path string to concrete route. Where two routes share a path one
  of them is indexed, here the earlier; the class reads only the full path of an indexed
  route, which is the same for both. The current pathname and the location builder
  belong to the engine and its browser environment and are parameters here.
\<close>

definition createRouter ::
  "'c Route list \<Rightarrow> string \<Rightarrow> (LocationOptions \<Rightarrow> string) \<Rightarrow> 'c Router" where
  "createRouter routeTree pathname build =
     \<lparr>routesByPath = map_of (map (\<lambda>rt. (fullPath rt, rt)) routeTree),
      location_pathname = pathname,
      buildLocation = build,
      navigations = []\<rparr>"

text \<open>
  Modelled from the spec: the engine's \<^verbatim>\<open>navigate\<close> primitive, which is not part of
  this repository. Only the fact that it was called, and with which options, is recorded;
  what the engine then does with the history and the location is its own.
\<close>

definition Router_navigate :: "NavigateOptions \<Rightarrow> 'c Router \<Rightarrow> 'c Router" where
  "Router_navigate options rt = rt\<lparr>navigations := navigations rt @ [options]\<rparr>"

subsection \<open>The class \<^verbatim>\<open>LuwioRouter\<close>\<close>

text \<open>The private fields \<^verbatim>\<open>_config\<close> and \<^verbatim>\<open>_router\<close>.\<close>

record 'c LuwioRouter =
  config :: "'c LocaleAwareRouteConfigI"
  router :: "'c Router"

text \<open>
  \<^verbatim>\<open>_buildPath(language, path)\<close>, on the configuration it reads. The fallback
  \<^verbatim>\<open>defaultLanguage ?? ""\<close> is dead for a configuration of the declared type, whose
  \<^verbatim>\<open>defaultLanguage\<close> is a string.
\<close>

definition buildPath :: "'c LocaleAwareRouteConfigI \<Rightarrow> string \<Rightarrow> string \<Rightarrow> string" where
  "buildPath cfg language path =
     (let defaultLng = defaultLanguage cfg;
          languageSafePath = (if path = ''/'' then '''' else path)
      in if language \<noteq> defaultLng then ''/'' @ language @ languageSafePath else path)"

text \<open>
  The callback of \<^verbatim>\<open>routes.map\<close> in the constructor: \<open>None\<close> is its \<^verbatim>\<open>null\<close>.
\<close>

definition compileRoute :: "'c LocaleAwareRouteConfigI \<Rightarrow> RouteLocaleI \<Rightarrow> 'c Route option" where
  "compileRoute cfg route =
     (case getDefinition (definitions cfg) (rl_definition route) of
        None \<Rightarrow> None
      | Some routeConfig \<Rightarrow>
          if rl_language route \<notin> set (supportedLanguages cfg) then None
          else Some (createRoute (buildPath cfg (rl_language route) (rl_path route))
                                 (componentOf routeConfig)))"

text \<open>The constant \<^verbatim>\<open>routes\<close> of the constructor: \<^verbatim>\<open>.map(...)\<close> then \<^verbatim>\<open>.filter(r => r !== null)\<close>.\<close>

definition compiledRoutes :: "'c LocaleAwareRouteConfigI \<Rightarrow> 'c Route list" where
  "compiledRoutes cfg =
     map the (filter (\<lambda>r. r \<noteq> None) (map (compileRoute cfg) (routes cfg)))"

text \<open>
  The constructor. The pathname and the location builder of the engine it creates are
  supplied by the environment.
\<close>

definition LuwioRouter_new ::
  "string \<Rightarrow> (LocationOptions \<Rightarrow> string) \<Rightarrow> 'c LocaleAwareRouteConfigI \<Rightarrow> 'c LuwioRouter" where
  "LuwioRouter_new pathname build cfg =
     \<lparr>config = cfg, router = createRouter (compiledRoutes cfg) pathname build\<rparr>"

text \<open>\<^verbatim>\<open>_route(key, language)\<close>: \<open>None\<close> is its \<^verbatim>\<open>null\<close>.\<close>

definition route :: "'c LuwioRouter \<Rightarrow> string \<Rightarrow> string \<Rightarrow> 'c Route option" where
  "route r key language =
     (case getDefinition (definitions (config r)) key of
        None \<Rightarrow> None
      | Some definition \<Rightarrow>
          (case find (\<lambda>route. rl_language route = language \<and> rl_definition route = key)
                     (routes (config r)) of
             None \<Rightarrow> None
           | Some found \<Rightarrow>
               routesByPath (router r) (buildPath (config r) language (rl_path found))))"

text \<open>
  \<^verbatim>\<open>path(key, language)\<close>. The source also calls \<^verbatim>\<open>buildLocation\<close> on the full path and
  discards the result.
\<close>

definition path :: "'c LuwioRouter \<Rightarrow> string \<Rightarrow> string \<Rightarrow> string" where
  "path r key language =
     (case route r key language of None \<Rightarrow> '''' | Some rt \<Rightarrow> fullPath rt)"

text \<open>\<^verbatim>\<open>hasRoute(key, language)\<close>.\<close>

definition hasRoute :: "'c LuwioRouter \<Rightarrow> string \<Rightarrow> string \<Rightarrow> bool" where
  "hasRoute r key language = (route r key language \<noteq> None)"

text \<open>\<^verbatim>\<open>isActive(key, language)\<close>.\<close>

definition isActive :: "'c LuwioRouter \<Rightarrow> string \<Rightarrow> string \<Rightarrow> bool" where
  "isActive r key language =
     (let currentLocation = location_pathname (router r)
      in case route r key language of
           Some rt \<Rightarrow> currentLocation = fullPath rt
         | None \<Rightarrow> False)"

text \<open>
  The spread \<^verbatim>\<open>...(hash && { hash })\<close>: an absent or empty hash adds no property.
\<close>

definition truthy_hash :: "string option \<Rightarrow> string option" where
  "truthy_hash h = (case h of None \<Rightarrow> None | Some s \<Rightarrow> if s = '''' then None else Some s)"

text \<open>\<^verbatim>\<open>href({key, language, query, params, hash})\<close>.\<close>

definition href :: "'c LuwioRouter \<Rightarrow> HrefParams \<Rightarrow> string" where
  "href r p =
     (case route r (href_key p) (href_language p) of
        None \<Rightarrow> ''''
      | Some rt \<Rightarrow>
          buildLocation (router r)
            \<lparr>loc_to = fullPath rt, loc_search = href_query p,
             loc_params = href_params p, loc_hash = truthy_hash (href_hash p)\<rparr>)"

text \<open>\<^verbatim>\<open>relative\<close> passes its argument on to \<^verbatim>\<open>href\<close>.\<close>

definition relative :: "'c LuwioRouter \<Rightarrow> HrefParams \<Rightarrow> string" where
  "relative r p = href r p"

text \<open>
  \<^verbatim>\<open>absolute({baseUrl, ...})\<close>: \<^verbatim>\<open>startsWith("/") ? slice(1)\<close> and
  \<^verbatim>\<open>endsWith("/") ? slice(0, -1)\<close>.
\<close>

definition stripLeadingSlash :: "string \<Rightarrow> string" where
  "stripLeadingSlash s = (if take 1 s = ''/'' then drop 1 s else s)"

definition stripTrailingSlash :: "string \<Rightarrow> string" where
  "stripTrailingSlash s = (if s \<noteq> '''' \<and> last s = CHR ''/'' then butlast s else s)"

definition absolute :: "'c LuwioRouter \<Rightarrow> string \<Rightarrow> HrefParams \<Rightarrow> string" where
  "absolute r baseUrl p =
     (let strippedHref = stripLeadingSlash (href r p);
          strippedBaseUrl = stripTrailingSlash baseUrl
      in strippedBaseUrl @ ''/'' @ strippedHref)"

text \<open>
  The message of the error \<^verbatim>\<open>navigate\<close> rejects with; \<open>side\<close> is \<^verbatim>\<open>to\<close> or \<^verbatim>\<open>from\<close>.
\<close>

definition notFoundMessage :: "string \<Rightarrow> LanguageAwareRoute \<Rightarrow> string" where
  \<open>notFoundMessage side sel =
     ''Route ('' @ side @ '') for key "'' @ lar_key sel
       @ ''" and language "'' @ lar_language sel @ ''" not found.''\<close>

text \<open>
  \<^verbatim>\<open>navigate\<close>. The promise it returns is a sum: \<open>Inl\<close> the message of the rejection,
  \<open>Inr\<close> fulfilment; the second component is the object after the call. The state
  payload, when given, is an object. A call that reaches the engine settles as the
  engine's promise does; the model lets that promise fulfil.
\<close>

definition navigateOptions ::
  "NavigateParams \<Rightarrow> 'c Route \<Rightarrow> 'c Route option \<Rightarrow> NavigateOptions" where
  "navigateOptions p toRoute fromRoute =
     \<lparr>opt_to = fullPath toRoute,
      opt_from = map_option fullPath fromRoute,
      opt_search = nav_query p,
      opt_params = nav_params p,
      opt_hash = truthy_hash (nav_hash p),
      opt_method = nav_method p,
      opt_state = nav_state p\<rparr>"

definition delegate :: "NavigateOptions \<Rightarrow> 'c LuwioRouter \<Rightarrow> (string + unit) \<times> 'c LuwioRouter" where
  "delegate options r = (Inr (), r\<lparr>router := Router_navigate options (router r)\<rparr>)"

definition navigate :: "NavigateParams \<Rightarrow> 'c LuwioRouter \<Rightarrow> (string + unit) \<times> 'c LuwioRouter" where
  "navigate p r =
     (case route r (lar_key (nav_to p)) (lar_language (nav_to p)) of
        None \<Rightarrow> (Inl (notFoundMessage ''to'' (nav_to p)), r)
      | Some toRoute \<Rightarrow>
          (case nav_from p of
             None \<Rightarrow> delegate (navigateOptions p toRoute None) r
           | Some from \<Rightarrow>
               (case route r (lar_key from) (lar_language from) of
                  None \<Rightarrow> (Inl (notFoundMessage ''from'' from), r)
                | Some fromRoute \<Rightarrow>
                    delegate (navigateOptions p toRoute (Some fromRoute)) r)))"

subsection \<open>Example configurations\<close>

text \<open>
  The configuration of the README and of the spec's Scenario A: the home and about pages
  in English (the default language) and Belgian.
\<close>

definition scenarioA :: "string LocaleAwareRouteConfigI" where
  "scenarioA =
     \<lparr>definitions = [''home'' \<mapsto> \<lparr>component = ''HomeComponent''\<rparr>,
                    ''about'' \<mapsto> \<lparr>component = ''AboutComponent''\<rparr>],
      routes =
        [\<lparr>rl_definition = ''home'', rl_language = ''en'', rl_path = ''/''\<rparr>,
         \<lparr>rl_definition = ''home'', rl_language = ''be'', rl_path = ''/''\<rparr>,
         \<lparr>rl_definition = ''about'', rl_language = ''en'', rl_path = ''/about''\<rparr>,
         \<lparr>rl_definition = ''about'', rl_language = ''be'', rl_path = ''/over-ons''\<rparr>],
      defaultLanguage = ''en'',
      supportedLanguages = [''en'', ''be'']\<rparr>"

text \<open>
  A location builder for the examples: the href of a location is its path. This is what
  a builder returns for options that carry no query, parameters or hash, the only ones
  the examples use.
\<close>

definition pathOnly :: "LocationOptions \<Rightarrow> string" where
  "pathOnly options = loc_to options"

text \<open>The object built from Scenario A while the browser is at \<^verbatim>\<open>/be/over-ons\<close>.\<close>

definition routerA :: "string LuwioRouter" where
  "routerA = LuwioRouter_new ''/be/over-ons'' pathOnly scenarioA"

text \<open>
  A configuration with two entries for one (key, language) pair, with different raw paths.
\<close>

definition duplicateConfig :: "string LocaleAwareRouteConfigI" where
  "duplicateConfig =
     \<lparr>definitions = [''home'' \<mapsto> \<lparr>component = ''HomeComponent''\<rparr>,
                    ''about'' \<mapsto> \<lparr>component = ''AboutComponent''\<rparr>],
      routes =
        [\<lparr>rl_definition = ''home'', rl_language = ''en'', rl_path = ''/''\<rparr>,
         \<lparr>rl_definition = ''about'', rl_language = ''en'', rl_path = ''/about''\<rparr>,
         \<lparr>rl_definition = ''about'', rl_language = ''en'', rl_path = ''/about-us''\<rparr>],
      defaultLanguage = ''en'',
      supportedLanguages = [''en'']\<rparr>"

text \<open>
  A configuration in which the compiled English entry has the concrete path that the
  entry of the unsupported language \<^verbatim>\<open>fr\<close> would get.
\<close>

definition shadowedConfig :: "string LocaleAwareRouteConfigI" where
  "shadowedConfig =
     \<lparr>definitions = [''about'' \<mapsto> \<lparr>component = ''AboutComponent''\<rparr>],
      routes =
        [\<lparr>rl_definition = ''about'', rl_language = ''en'', rl_path = ''/fr/about''\<rparr>,
         \<lparr>rl_definition = ''about'', rl_language = ''fr'', rl_path = ''/about''\<rparr>],
      defaultLanguage = ''en'',
      supportedLanguages = [''en'']\<rparr>"

text \<open>
  A configuration whose default language \<^verbatim>\<open>en\<close> is not supported, and whose English
  entry has as raw path the concrete path of the compiled Belgian entry.
\<close>

definition unsupportedDefaultConfig :: "string LocaleAwareRouteConfigI" where
  "unsupportedDefaultConfig =
     \<lparr>definitions = [''home'' \<mapsto> \<lparr>component = ''HomeComponent''\<rparr>],
      routes =
        [\<lparr>rl_definition = ''home'', rl_language = ''en'', rl_path = ''/be''\<rparr>,
         \<lparr>rl_definition = ''home'', rl_language = ''be'', rl_path = ''/''\<rparr>],
      defaultLanguage = ''en'',
      supportedLanguages = [''be'']\<rparr>"

text \<open>
  A configuration with an entry whose key is no definition but the name of a member of
  \<^verbatim>\<open>Object.prototype\<close>.
\<close>

definition inheritedKeyConfig :: "string LocaleAwareRouteConfigI" where
  "inheritedKeyConfig =
     \<lparr>definitions = [''home'' \<mapsto> \<lparr>component = ''HomeComponent''\<rparr>],
      routes =
        [\<lparr>rl_definition = ''home'', rl_language = ''en'', rl_path = ''/''\<rparr>,
         \<lparr>rl_definition = ''constructor'', rl_language = ''en'', rl_path = ''/c''\<rparr>],
      defaultLanguage = ''en'',
      supportedLanguages = [''en'']\<rparr>"

section \<open>Auxiliary facts\<close>

subsection \<open>The compiled index\<close>

lemma index_lookup_Some:
  "map_of (map (\<lambda>rt. (fullPath rt, rt)) rs) p = Some rt \<Longrightarrow> rt \<in> set rs \<and> fullPath rt = p"
  by (induction rs) (auto split: if_splits)

lemma index_lookup_None:
  "map_of (map (\<lambda>rt. (fullPath rt, rt)) rs) p = None \<longleftrightarrow> p \<notin> fullPath ` set rs"
  by (simp add: map_of_eq_None_iff image_image)

lemma index_lookup_mem:
  assumes "p \<in> fullPath ` set rs"
  shows "\<exists>rt. map_of (map (\<lambda>rt. (fullPath rt, rt)) rs) p = Some rt \<and> fullPath rt = p"
proof -
  from assms have "map_of (map (\<lambda>rt. (fullPath rt, rt)) rs) p \<noteq> None"
    by (simp add: index_lookup_None)
  then obtain rt where "map_of (map (\<lambda>rt. (fullPath rt, rt)) rs) p = Some rt"
    by blast
  then show ?thesis
    using index_lookup_Some by blast
qed

lemma getDefinition_None_iff:
  "getDefinition defs key = None \<longleftrightarrow> defs key = None \<and> key \<notin> set objectPrototypeKeys"
  by (simp add: getDefinition_def split: option.splits)

lemma getDefinition_own:
  "defs key \<noteq> None \<Longrightarrow> getDefinition defs key \<noteq> None"
  by (simp add: getDefinition_None_iff)

lemma compileRoute_Some_iff:
  "compileRoute cfg e \<noteq> None \<longleftrightarrow>
     getDefinition (definitions cfg) (rl_definition e) \<noteq> None
     \<and> rl_language e \<in> set (supportedLanguages cfg)"
  by (simp add: compileRoute_def split: option.splits)

lemma compileRoute_unsupported:
  "rl_language e \<notin> set (supportedLanguages cfg) \<Longrightarrow> compileRoute cfg e = None"
  by (simp add: compileRoute_def split: option.splits)

lemma compileRoute_fullPath:
  "compileRoute cfg e = Some rt \<Longrightarrow> fullPath rt = buildPath cfg (rl_language e) (rl_path e)"
  by (auto simp: compileRoute_def createRoute_def split: option.splits if_splits)

lemma set_compiledRoutes:
  "set (compiledRoutes cfg) = {rt. \<exists>e \<in> set (routes cfg). compileRoute cfg e = Some rt}"
  by (force simp: compiledRoutes_def image_iff)

lemma compiled_paths:
  "p \<in> fullPath ` set (compiledRoutes cfg) \<longleftrightarrow>
     (\<exists>e \<in> set (routes cfg). compileRoute cfg e \<noteq> None
         \<and> buildPath cfg (rl_language e) (rl_path e) = p)"
proof
  assume "p \<in> fullPath ` set (compiledRoutes cfg)"
  then obtain rt e where "e \<in> set (routes cfg)" "compileRoute cfg e = Some rt" "fullPath rt = p"
    by (auto simp: set_compiledRoutes)
  then show "\<exists>e \<in> set (routes cfg). compileRoute cfg e \<noteq> None
                \<and> buildPath cfg (rl_language e) (rl_path e) = p"
    using compileRoute_fullPath by fastforce
next
  assume "\<exists>e \<in> set (routes cfg). compileRoute cfg e \<noteq> None
             \<and> buildPath cfg (rl_language e) (rl_path e) = p"
  then obtain e rt where e: "e \<in> set (routes cfg)" "compileRoute cfg e = Some rt"
      "buildPath cfg (rl_language e) (rl_path e) = p"
    by auto
  then have "rt \<in> set (compiledRoutes cfg)" "fullPath rt = p"
    using compileRoute_fullPath by (auto simp: set_compiledRoutes)
  then show "p \<in> fullPath ` set (compiledRoutes cfg)"
    by blast
qed

subsection \<open>Resolution on a freshly constructed object\<close>

lemma route_new:
  "route (LuwioRouter_new pn bl cfg) key language =
     (case getDefinition (definitions cfg) key of
        None \<Rightarrow> None
      | Some d \<Rightarrow>
          (case find (\<lambda>e. rl_language e = language \<and> rl_definition e = key) (routes cfg) of
             None \<Rightarrow> None
           | Some found \<Rightarrow>
               map_of (map (\<lambda>rt. (fullPath rt, rt)) (compiledRoutes cfg))
                 (buildPath cfg language (rl_path found))))"
  by (simp add: route_def LuwioRouter_new_def createRouter_def split: option.splits)

lemma route_new_fullPath:
  assumes "route (LuwioRouter_new pn bl cfg) key language = Some rt"
  shows "\<exists>found. find (\<lambda>e. rl_language e = language \<and> rl_definition e = key) (routes cfg)
                     = Some found
           \<and> fullPath rt = buildPath cfg language (rl_path found)"
  using assms by (auto simp: route_new split: option.splits dest: index_lookup_Some)

lemma find_first:
  assumes "xs = pre @ e # post" "\<forall>x \<in> set pre. \<not> P x" "P e"
  shows "find P xs = Some e"
  using assms by (induction pre arbitrary: xs) auto

lemma route_None_no_definition:
  "getDefinition (definitions (config r)) key = None \<Longrightarrow> route r key language = None"
  by (simp add: route_def)

lemma route_None_absent:
  assumes "\<forall>e \<in> set (routes (config r)). \<not> (rl_definition e = key \<and> rl_language e = language)"
  shows "route r key language = None"
proof -
  have "find (\<lambda>e. rl_language e = language \<and> rl_definition e = key) (routes (config r)) = None"
    using assms by (auto simp: find_None_iff)
  then show ?thesis by (simp add: route_def split: option.splits)
qed

lemma route_new_registered:
  assumes "e \<in> set (routes cfg)"
    and "getDefinition (definitions cfg) (rl_definition e) \<noteq> None"
    and "rl_language e \<in> set (supportedLanguages cfg)"
  shows "\<exists>first rt.
           find (\<lambda>x. rl_language x = rl_language e \<and> rl_definition x = rl_definition e) (routes cfg)
             = Some first
           \<and> route (LuwioRouter_new pn bl cfg) (rl_definition e) (rl_language e) = Some rt
           \<and> fullPath rt = buildPath cfg (rl_language first) (rl_path first)"
proof -
  let ?P = "\<lambda>x. rl_language x = rl_language e \<and> rl_definition x = rl_definition e"
  from assms(1) have "find ?P (routes cfg) \<noteq> None"
    by (auto simp: find_None_iff)
  then obtain first where f: "find ?P (routes cfg) = Some first"
    by blast
  then have fp: "?P first" and fm: "first \<in> set (routes cfg)"
    by (auto simp: find_Some_iff)
  from fp assms(2,3) have "compileRoute cfg first \<noteq> None"
    using compileRoute_Some_iff [of cfg first] by auto
  with fm have "buildPath cfg (rl_language first) (rl_path first)
                  \<in> fullPath ` set (compiledRoutes cfg)"
    using compiled_paths [of "buildPath cfg (rl_language first) (rl_path first)" cfg] by blast
  then obtain rt where
      "map_of (map (\<lambda>rt. (fullPath rt, rt)) (compiledRoutes cfg))
         (buildPath cfg (rl_language first) (rl_path first)) = Some rt"
      "fullPath rt = buildPath cfg (rl_language first) (rl_path first)"
    using index_lookup_mem by blast
  with f fp assms(2) show ?thesis
    by (auto simp: route_new split: option.splits)
qed

lemma route_first_match:
  assumes "routes (config r) = pre @ e # post"
    and "\<forall>x \<in> set pre. \<not> (rl_language x = language \<and> rl_definition x = key)"
    and "rl_language e = language" and "rl_definition e = key"
    and "getDefinition (definitions (config r)) key \<noteq> None"
  shows "route r key language
           = routesByPath (router r) (buildPath (config r) language (rl_path e))"
proof -
  have "find (\<lambda>x. rl_language x = language \<and> rl_definition x = key) (routes (config r)) = Some e"
    using assms(1-4) by (intro find_first [where pre = pre and post = post]) auto
  with assms(5) show ?thesis
    by (auto simp: route_def split: option.splits)
qed

subsection \<open>Delegation and the two strips\<close>

lemma navigate_state:
  "snd (navigate n r) = r
   \<or> (\<exists>options. snd (navigate n r)
         = r\<lparr>router := (router r)\<lparr>navigations := navigations (router r) @ [options]\<rparr>\<rparr>)"
  by (auto simp: navigate_def delegate_def Router_navigate_def split: option.splits)

lemma route_ignores_navigations:
  "route (r\<lparr>router := (router r)\<lparr>navigations := ns\<rparr>\<rparr>) key language = route r key language"
  by (simp add: route_def split: option.splits)

lemma navigate_keeps_routes:
  "route (snd (navigate n r)) key language = route r key language"
  using navigate_state [of n r] by (auto simp: route_ignores_navigations)

lemma navigate_delegates:
  assumes "route r (lar_key (nav_to n)) (lar_language (nav_to n)) = Some toRoute"
    and "nav_from n = None
         \<or> (\<exists>sel. nav_from n = Some sel \<and> route r (lar_key sel) (lar_language sel) \<noteq> None)"
  shows "\<exists>options. navigate n r
           = (Inr (), r\<lparr>router := (router r)\<lparr>navigations := navigations (router r) @ [options]\<rparr>\<rparr>)
           \<and> opt_to options = fullPath toRoute"
  using assms
  by (auto simp: navigate_def delegate_def Router_navigate_def navigateOptions_def
           split: option.splits)

lemma stripTrailingSlash_cases:
  "baseUrl = (if suffix ''/'' baseUrl then stripTrailingSlash baseUrl @ ''/''
              else stripTrailingSlash baseUrl)"
proof (cases "baseUrl \<noteq> '''' \<and> last baseUrl = CHR ''/''")
  case True
  then have "butlast baseUrl @ ''/'' = baseUrl"
    using append_butlast_last_id [of baseUrl] by simp
  then have "suffix ''/'' baseUrl"
    by (metis suffixI)
  with True \<open>butlast baseUrl @ ''/'' = baseUrl\<close> show ?thesis
    by (simp add: stripTrailingSlash_def)
next
  case False
  then have "\<not> suffix ''/'' baseUrl"
    by (auto simp: suffix_def)
  with False show ?thesis
    by (auto simp: stripTrailingSlash_def)
qed

lemma stripLeadingSlash_cases:
  "h = (if prefix ''/'' h then ''/'' @ stripLeadingSlash h else stripLeadingSlash h)"
  by (cases h) (auto simp: stripLeadingSlash_def)

lemma stripTrailingSlash_no_slash:
  assumes "\<not> suffix ''//'' baseUrl"
  shows "\<not> suffix ''/'' (stripTrailingSlash baseUrl)"
proof
  assume s: "suffix ''/'' (stripTrailingSlash baseUrl)"
  show False
  proof (cases "suffix ''/'' baseUrl")
    case True
    then have "baseUrl = stripTrailingSlash baseUrl @ ''/''"
      using stripTrailingSlash_cases [of baseUrl] by simp
    moreover from s obtain b where "stripTrailingSlash baseUrl = b @ ''/''"
      by (auto simp: suffix_def)
    ultimately have "baseUrl = b @ ''//''"
      by simp
    then have "suffix ''//'' baseUrl"
      by (metis suffixI)
    with assms show False by simp
  next
    case False
    then have "baseUrl = stripTrailingSlash baseUrl"
      using stripTrailingSlash_cases [of baseUrl] by simp
    with s False show False by simp
  qed
qed

lemma stripLeadingSlash_no_slash:
  assumes "\<not> prefix ''//'' h"
  shows "\<not> prefix ''/'' (stripLeadingSlash h)"
  using assms by (cases h) (auto simp: stripLeadingSlash_def)

subsection \<open>Unfolding the model on a concrete object\<close>

lemmas eval_defs = hasRoute_def path_def route_def isActive_def href_def absolute_def
  LuwioRouter_new_def createRouter_def compiledRoutes_def compileRoute_def createRoute_def
  getDefinition_def objectPrototypeKeys_def
  buildPath_def pathOnly_def truthy_hash_def stripLeadingSlash_def stripTrailingSlash_def

section \<open>The path builder\<close>

text \<open>
  C2. The path builder returns the raw path unchanged when the language is the default
  language; otherwise it returns "/" followed by the language and the raw path, where a
  raw path of exactly "/" contributes the empty string, so that the root route of a
  non-default language is "/" followed by the language, with no trailing slash.
\<close>

theorem buildPath_spec:
  "(language = defaultLanguage cfg \<longrightarrow> buildPath cfg language rawPath = rawPath)
   \<and> (language \<noteq> defaultLanguage cfg \<and> rawPath \<noteq> ''/'' \<longrightarrow>
        buildPath cfg language rawPath = ''/'' @ language @ rawPath)
   \<and> (language \<noteq> defaultLanguage cfg \<longrightarrow> buildPath cfg language ''/'' = ''/'' @ language)"
  by (simp add: buildPath_def)

theorem buildPath_spec_witness:
  "buildPath scenarioA ''en'' ''/about'' = ''/about''
   \<and> buildPath scenarioA ''be'' ''/over-ons'' = ''/be/over-ons''
   \<and> buildPath scenarioA ''be'' ''/'' = ''/be''"
  using buildPath_spec [where language = "''en''" and cfg = scenarioA and rawPath = "''/about''"]
        buildPath_spec [where language = "''be''" and cfg = scenarioA and rawPath = "''/over-ons''"]
  by (simp add: scenarioA_def)

section \<open>Pairs that do not resolve\<close>

text \<open>
  What holds of the code: a pair resolves to nothing when the read of its key in the
  definitions is \<^verbatim>\<open>undefined\<close>, and when no entry of \<open>routes\<close> has its key and language.
\<close>

lemma unresolved_without_definition:
  assumes "getDefinition (definitions (config r)) key = None"
  shows "\<not> hasRoute r key language \<and> path r key language = ''''"
  using route_None_no_definition [OF assms, of language] by (simp add: hasRoute_def path_def)

lemma unresolved_when_absent:
  assumes "\<forall>e \<in> set (routes (config r)). \<not> (rl_definition e = key \<and> rl_language e = language)"
  shows "\<not> hasRoute r key language \<and> path r key language = ''''"
  using route_None_absent [OF assms] by (simp add: hasRoute_def path_def)

text \<open>
  C1 says that \<open>hasRoute\<close> is false and \<open>path\<close> is the empty string for every pair that
  is absent from \<open>routes\<close>, or whose language is not supported, or whose key has no
  definition. The code departs from it at two inputs. With English the default and only
  supported language, the pair (about, fr), whose entry the constructor drops, resolves
  to the route of the English about page, because that page's concrete path
  \<^verbatim>\<open>/fr/about\<close> is what the pair's raw path \<^verbatim>\<open>/about\<close> is prefixed to. And the key
  \<^verbatim>\<open>constructor\<close>, which has no definition, resolves, because the read of it in the
  definitions finds the member that every object inherits.
\<close>

theorem unresolvable_pairs_resolve:
  "''fr'' \<notin> set (supportedLanguages shadowedConfig)
   \<and> compileRoute shadowedConfig
        \<lparr>rl_definition = ''about'', rl_language = ''fr'', rl_path = ''/about''\<rparr> = None
   \<and> hasRoute (LuwioRouter_new ''/'' pathOnly shadowedConfig) ''about'' ''fr''
   \<and> path (LuwioRouter_new ''/'' pathOnly shadowedConfig) ''about'' ''fr'' = ''/fr/about''
   \<and> definitions inheritedKeyConfig ''constructor'' = None
   \<and> hasRoute (LuwioRouter_new ''/'' pathOnly inheritedKeyConfig) ''constructor'' ''en''
   \<and> path (LuwioRouter_new ''/'' pathOnly inheritedKeyConfig) ''constructor'' ''en'' = ''/c''"
  by (simp add: eval_defs shadowedConfig_def inheritedKeyConfig_def)

section \<open>Pairs that resolve\<close>

text \<open>
  C3. For every (key, language) pair that appears as a locale entry of \<open>routes\<close>, where
  the key has a definition and the language is supported, \<open>hasRoute key language\<close> is
  true and \<open>path key language\<close> is the path builder's output for the language and raw
  path of the pair's entry: the entry that \<open>find\<close> returns, which is the first of the
  list where the pair has several, and any entry of the pair when it has no other.
\<close>

theorem registered_pair_resolves:
  assumes "\<exists>e \<in> set (routes cfg). rl_definition e = key \<and> rl_language e = language"
    and "definitions cfg key \<noteq> None"
    and "language \<in> set (supportedLanguages cfg)"
  shows "hasRoute (LuwioRouter_new pn bl cfg) key language
         \<and> (\<exists>entry \<in> set (routes cfg).
              rl_definition entry = key \<and> rl_language entry = language
              \<and> find (\<lambda>x. rl_language x = language \<and> rl_definition x = key) (routes cfg)
                  = Some entry
              \<and> path (LuwioRouter_new pn bl cfg) key language
                  = buildPath cfg (rl_language entry) (rl_path entry))
         \<and> (\<forall>e \<in> set (routes cfg).
              rl_definition e = key \<and> rl_language e = language
              \<and> (\<forall>x \<in> set (routes cfg).
                    rl_definition x = key \<and> rl_language x = language \<longrightarrow> x = e)
              \<longrightarrow> path (LuwioRouter_new pn bl cfg) key language
                    = buildPath cfg (rl_language e) (rl_path e))"
proof -
  let ?P = "\<lambda>x. rl_language x = language \<and> rl_definition x = key"
  from assms(1) obtain e where e: "e \<in> set (routes cfg)" "rl_definition e = key"
      "rl_language e = language"
    by blast
  have d: "getDefinition (definitions cfg) (rl_definition e) \<noteq> None"
    using assms(2) e(2) by (simp add: getDefinition_own)
  have l: "rl_language e \<in> set (supportedLanguages cfg)"
    using assms(3) e(3) by simp
  obtain entry rt where f: "find ?P (routes cfg) = Some entry"
      and r: "route (LuwioRouter_new pn bl cfg) key language = Some rt"
      and p: "fullPath rt = buildPath cfg (rl_language entry) (rl_path entry)"
    using route_new_registered [OF e(1) d l, of pn bl] e(2,3) by auto
  from f have m: "entry \<in> set (routes cfg)" "rl_language entry = language"
      "rl_definition entry = key"
    by (auto simp: find_Some_iff)
  have h: "hasRoute (LuwioRouter_new pn bl cfg) key language"
    using r by (simp add: hasRoute_def)
  have q: "path (LuwioRouter_new pn bl cfg) key language
             = buildPath cfg (rl_language entry) (rl_path entry)"
    using r p by (simp add: path_def)
  have u: "\<forall>e \<in> set (routes cfg).
              rl_definition e = key \<and> rl_language e = language
              \<and> (\<forall>x \<in> set (routes cfg).
                    rl_definition x = key \<and> rl_language x = language \<longrightarrow> x = e)
              \<longrightarrow> path (LuwioRouter_new pn bl cfg) key language
                    = buildPath cfg (rl_language e) (rl_path e)"
  proof (intro ballI impI)
    fix e
    assume "rl_definition e = key \<and> rl_language e = language
              \<and> (\<forall>x \<in> set (routes cfg).
                    rl_definition x = key \<and> rl_language x = language \<longrightarrow> x = e)"
    then have "\<forall>x \<in> set (routes cfg).
                 rl_definition x = key \<and> rl_language x = language \<longrightarrow> x = e"
      by simp
    with m have "entry = e"
      by blast
    with q show "path (LuwioRouter_new pn bl cfg) key language
                   = buildPath cfg (rl_language e) (rl_path e)"
      by simp
  qed
  show ?thesis
  proof (intro conjI)
    show "hasRoute (LuwioRouter_new pn bl cfg) key language"
      by (rule h)
    show "\<exists>entry \<in> set (routes cfg).
              rl_definition entry = key \<and> rl_language entry = language
              \<and> find ?P (routes cfg) = Some entry
              \<and> path (LuwioRouter_new pn bl cfg) key language
                  = buildPath cfg (rl_language entry) (rl_path entry)"
      using m f q by (intro bexI [of _ entry]) simp_all
    show "\<forall>e \<in> set (routes cfg).
              rl_definition e = key \<and> rl_language e = language
              \<and> (\<forall>x \<in> set (routes cfg).
                    rl_definition x = key \<and> rl_language x = language \<longrightarrow> x = e)
              \<longrightarrow> path (LuwioRouter_new pn bl cfg) key language
                    = buildPath cfg (rl_language e) (rl_path e)"
      by (rule u)
  qed
qed

text \<open>Scenario A of the spec.\<close>

theorem registered_pair_resolves_witness:
  "\<lparr>rl_definition = ''about'', rl_language = ''be'', rl_path = ''/over-ons''\<rparr>
      \<in> set (routes scenarioA)
   \<and> definitions scenarioA ''about'' \<noteq> None
   \<and> ''be'' \<in> set (supportedLanguages scenarioA)
   \<and> hasRoute routerA ''about'' ''be''
   \<and> path routerA ''about'' ''be'' = ''/be/over-ons''
   \<and> path routerA ''home'' ''be'' = ''/be''
   \<and> path routerA ''home'' ''en'' = ''/''"
  using registered_pair_resolves
          [where key = "''about''" and language = "''be''"
             and cfg = scenarioA and pn = "''/be/over-ons''" and bl = pathOnly]
        registered_pair_resolves
          [where key = "''home''" and language = "''be''"
             and cfg = scenarioA and pn = "''/be/over-ons''" and bl = pathOnly]
        registered_pair_resolves
          [where key = "''home''" and language = "''en''"
             and cfg = scenarioA and pn = "''/be/over-ons''" and bl = pathOnly]
  by (simp add: routerA_def scenarioA_def buildPath_def)

section \<open>Duplicate entries\<close>

text \<open>
  C9. Where \<open>routes\<close> has an entry of the given key and language, and the read of the
  key in the definitions is not \<^verbatim>\<open>undefined\<close>, resolution uses the first such entry in the order of the list, whatever
  follows it: \<open>route\<close> is the engine's route for the concrete path built from that
  entry's raw path, and \<open>hasRoute\<close>, \<open>path\<close>, \<open>isActive\<close>, \<open>href\<close> and \<open>navigate\<close> are
  determined by that route.
\<close>

theorem first_match_wins:
  assumes "routes (config r) = pre @ e # post"
    and "\<forall>x \<in> set pre. \<not> (rl_language x = language \<and> rl_definition x = key)"
    and "rl_language e = language" and "rl_definition e = key"
    and "getDefinition (definitions (config r)) key \<noteq> None"
  shows "let target = routesByPath (router r) (buildPath (config r) language (rl_path e)) in
           route r key language = target
         \<and> hasRoute r key language = (target \<noteq> None)
         \<and> path r key language = (case target of None \<Rightarrow> '''' | Some rt \<Rightarrow> fullPath rt)
         \<and> isActive r key language
             = (case target of None \<Rightarrow> False
                | Some rt \<Rightarrow> location_pathname (router r) = fullPath rt)
         \<and> (href_key p = key \<and> href_language p = language \<longrightarrow>
              href r p = (case target of None \<Rightarrow> ''''
                          | Some rt \<Rightarrow>
                              buildLocation (router r)
                                \<lparr>loc_to = fullPath rt, loc_search = href_query p,
                                 loc_params = href_params p,
                                 loc_hash = truthy_hash (href_hash p)\<rparr>))
         \<and> (nav_to n = \<lparr>lar_key = key, lar_language = language\<rparr> \<and> nav_from n = None \<longrightarrow>
              navigate n r = (case target of
                                None \<Rightarrow> (Inl (notFoundMessage ''to'' (nav_to n)), r)
                              | Some rt \<Rightarrow> delegate (navigateOptions n rt None) r))"
proof -
  have rt: "route r key language
              = routesByPath (router r) (buildPath (config r) language (rl_path e))"
    using route_first_match [OF assms] .
  show ?thesis
    unfolding Let_def hasRoute_def path_def isActive_def href_def navigate_def
    by (auto simp: rt split: option.splits)
qed

text \<open>
  Two entries for (about, en), after the home page: the first, with raw path
  \<^verbatim>\<open>/about\<close>, decides every operation.
\<close>

theorem first_match_wins_witness:
  "routes (config (LuwioRouter_new ''/about'' pathOnly duplicateConfig))
     = [\<lparr>rl_definition = ''home'', rl_language = ''en'', rl_path = ''/''\<rparr>]
       @ \<lparr>rl_definition = ''about'', rl_language = ''en'', rl_path = ''/about''\<rparr>
       # [\<lparr>rl_definition = ''about'', rl_language = ''en'', rl_path = ''/about-us''\<rparr>]
   \<and> getDefinition (definitions (config (LuwioRouter_new ''/about'' pathOnly duplicateConfig)))
         ''about'' \<noteq> None
   \<and> route (LuwioRouter_new ''/about'' pathOnly duplicateConfig) ''about'' ''en''
       = Some \<lparr>fullPath = ''/about'', route_component = Some ''AboutComponent''\<rparr>
   \<and> hasRoute (LuwioRouter_new ''/about'' pathOnly duplicateConfig) ''about'' ''en''
   \<and> path (LuwioRouter_new ''/about'' pathOnly duplicateConfig) ''about'' ''en'' = ''/about''
   \<and> isActive (LuwioRouter_new ''/about'' pathOnly duplicateConfig) ''about'' ''en''
   \<and> href (LuwioRouter_new ''/about'' pathOnly duplicateConfig)
        \<lparr>href_key = ''about'', href_language = ''en'', href_query = None,
         href_params = None, href_hash = None\<rparr> = ''/about''"
proof -
  let ?r = "LuwioRouter_new ''/about'' pathOnly duplicateConfig"
  let ?h = "\<lparr>rl_definition = ''home'', rl_language = ''en'', rl_path = ''/''\<rparr>"
  let ?e = "\<lparr>rl_definition = ''about'', rl_language = ''en'', rl_path = ''/about''\<rparr>"
  let ?d = "\<lparr>rl_definition = ''about'', rl_language = ''en'', rl_path = ''/about-us''\<rparr>"
  let ?p = "\<lparr>href_key = ''about'', href_language = ''en'', href_query = None,
             href_params = None, href_hash = None\<rparr>"
  have h1: "routes (config ?r) = [?h] @ ?e # [?d]"
    by (simp add: LuwioRouter_new_def duplicateConfig_def)
  have h2: "\<forall>x \<in> set [?h]. \<not> (rl_language x = ''en'' \<and> rl_definition x = ''about'')"
    by simp
  have h5: "getDefinition (definitions (config ?r)) ''about'' \<noteq> None"
    by (simp add: LuwioRouter_new_def duplicateConfig_def getDefinition_def)
  have t: "routesByPath (router ?r) (buildPath (config ?r) ''en'' (rl_path ?e))
             = Some \<lparr>fullPath = ''/about'', route_component = Some ''AboutComponent''\<rparr>"
    by (simp add: eval_defs duplicateConfig_def)
  have l: "location_pathname (router ?r) = ''/about''"
    by (simp add: LuwioRouter_new_def createRouter_def)
  have b: "buildLocation (router ?r) = pathOnly"
    by (simp add: LuwioRouter_new_def createRouter_def)
  from first_match_wins [OF h1 h2 _ _ h5, where p = ?p] h1 h5 t l b show ?thesis
    by (simp add: Let_def pathOnly_def)
qed

section \<open>Navigation\<close>

text \<open>
  C4. When the \<^verbatim>\<open>to\<close> selector does not resolve, \<open>navigate\<close> rejects with the message
  \<^verbatim>\<open>Route (to) for key "<key>" and language "<language>" not found.\<close> for the key and
  language of \<^verbatim>\<open>to\<close>; when \<^verbatim>\<open>to\<close> resolves and a supplied \<^verbatim>\<open>from\<close> selector does not, it
  rejects with the same message for the side \<^verbatim>\<open>from\<close> and the key and language of
  \<^verbatim>\<open>from\<close>.
\<close>

theorem navigate_rejects_unresolved:
  \<open>(\<not> hasRoute r (lar_key (nav_to n)) (lar_language (nav_to n)) \<longrightarrow>
      fst (navigate n r)
        = Inl (''Route (to) for key "'' @ lar_key (nav_to n)
                 @ ''" and language "'' @ lar_language (nav_to n) @ ''" not found.''))
   \<and> (hasRoute r (lar_key (nav_to n)) (lar_language (nav_to n))
        \<and> nav_from n = Some sel \<and> \<not> hasRoute r (lar_key sel) (lar_language sel) \<longrightarrow>
      fst (navigate n r)
        = Inl (''Route (from) for key "'' @ lar_key sel
                 @ ''" and language "'' @ lar_language sel @ ''" not found.''))\<close>
  by (auto simp: navigate_def hasRoute_def notFoundMessage_def split: option.splits)

text \<open>Scenario C of the spec, and a \<^verbatim>\<open>from\<close> selector in an unsupported language.\<close>

theorem navigate_rejects_unresolved_witness:
  \<open>\<not> hasRoute routerA ''missing'' ''en''
   \<and> fst (navigate \<lparr>nav_to = \<lparr>lar_key = ''missing'', lar_language = ''en''\<rparr>, nav_from = None,
                      nav_query = None, nav_params = None, nav_hash = None,
                      nav_method = None, nav_state = None\<rparr> routerA)
       = Inl ''Route (to) for key "missing" and language "en" not found.''
   \<and> hasRoute routerA ''about'' ''be''
   \<and> \<not> hasRoute routerA ''about'' ''fr''
   \<and> fst (navigate \<lparr>nav_to = \<lparr>lar_key = ''about'', lar_language = ''be''\<rparr>,
                      nav_from = Some \<lparr>lar_key = ''about'', lar_language = ''fr''\<rparr>,
                      nav_query = None, nav_params = None, nav_hash = None,
                      nav_method = None, nav_state = None\<rparr> routerA)
       = Inl ''Route (from) for key "about" and language "fr" not found.''\<close>
  using navigate_rejects_unresolved
          [where r = routerA
             and n = "\<lparr>nav_to = \<lparr>lar_key = ''missing'', lar_language = ''en''\<rparr>, nav_from = None,
                       nav_query = None, nav_params = None, nav_hash = None,
                       nav_method = None, nav_state = None\<rparr>"
             and sel = "\<lparr>lar_key = ''about'', lar_language = ''fr''\<rparr>"]
        navigate_rejects_unresolved
          [where r = routerA
             and n = "\<lparr>nav_to = \<lparr>lar_key = ''about'', lar_language = ''be''\<rparr>,
                       nav_from = Some \<lparr>lar_key = ''about'', lar_language = ''fr''\<rparr>,
                       nav_query = None, nav_params = None, nav_hash = None,
                       nav_method = None, nav_state = None\<rparr>"
             and sel = "\<lparr>lar_key = ''about'', lar_language = ''fr''\<rparr>"]
  by (simp add: routerA_def scenarioA_def eval_defs)

text \<open>
  C5. A call of \<open>navigate\<close> whose \<^verbatim>\<open>to\<close> selector, or whose supplied \<^verbatim>\<open>from\<close> selector,
  does not resolve is rejected and returns the object as it was: the engine's
  navigation primitive has received no call and nothing else of the engine has changed.
\<close>

theorem rejection_before_delegation:
  "\<not> hasRoute r (lar_key (nav_to n)) (lar_language (nav_to n))
   \<or> (\<exists>sel. nav_from n = Some sel \<and> \<not> hasRoute r (lar_key sel) (lar_language sel))
   \<longrightarrow> isl (fst (navigate n r))
       \<and> snd (navigate n r) = r
       \<and> navigations (router (snd (navigate n r))) = navigations (router r)"
  by (auto simp: navigate_def hasRoute_def split: option.splits)

text \<open>
  On Scenario A the rejected call leaves the log of the engine empty, while a call that
  resolves reaches the engine with the concrete path.
\<close>

theorem rejection_before_delegation_witness:
  "\<not> hasRoute routerA ''missing'' ''en''
   \<and> isl (fst (navigate \<lparr>nav_to = \<lparr>lar_key = ''missing'', lar_language = ''en''\<rparr>,
                          nav_from = None, nav_query = None, nav_params = None,
                          nav_hash = None, nav_method = None, nav_state = None\<rparr> routerA))
   \<and> snd (navigate \<lparr>nav_to = \<lparr>lar_key = ''missing'', lar_language = ''en''\<rparr>,
                      nav_from = None, nav_query = None, nav_params = None,
                      nav_hash = None, nav_method = None, nav_state = None\<rparr> routerA) = routerA
   \<and> navigations (router (snd (navigate \<lparr>nav_to = \<lparr>lar_key = ''missing'', lar_language = ''en''\<rparr>,
                      nav_from = None, nav_query = None, nav_params = None,
                      nav_hash = None, nav_method = None, nav_state = None\<rparr> routerA))) = []
   \<and> navigations (router (snd (navigate \<lparr>nav_to = \<lparr>lar_key = ''about'', lar_language = ''be''\<rparr>,
                      nav_from = None, nav_query = None, nav_params = None,
                      nav_hash = None, nav_method = None, nav_state = None\<rparr> routerA)))
       = [\<lparr>opt_to = ''/be/over-ons'', opt_from = None, opt_search = None, opt_params = None,
           opt_hash = None, opt_method = None, opt_state = None\<rparr>]"
proof -
  let ?n = "\<lparr>nav_to = \<lparr>lar_key = ''missing'', lar_language = ''en''\<rparr>,
             nav_from = None, nav_query = None, nav_params = None,
             nav_hash = None, nav_method = None, nav_state = None\<rparr>"
  have h: "\<not> hasRoute routerA ''missing'' ''en''"
    by (simp add: routerA_def scenarioA_def eval_defs)
  have l: "navigations (router routerA) = []"
    by (simp add: routerA_def LuwioRouter_new_def createRouter_def)
  have d: "navigations (router (snd (navigate \<lparr>nav_to = \<lparr>lar_key = ''about'', lar_language = ''be''\<rparr>,
                      nav_from = None, nav_query = None, nav_params = None,
                      nav_hash = None, nav_method = None, nav_state = None\<rparr> routerA)))
       = [\<lparr>opt_to = ''/be/over-ons'', opt_from = None, opt_search = None, opt_params = None,
           opt_hash = None, opt_method = None, opt_state = None\<rparr>]"
    by (simp add: routerA_def scenarioA_def eval_defs navigate_def delegate_def
          navigateOptions_def Router_navigate_def)
  from rejection_before_delegation [where r = routerA and n = ?n] h l d show ?thesis
    by simp
qed


section \<open>The active route\<close>

text \<open>
  C8. \<open>isActive key language\<close> is true exactly when the pair resolves and the pathname
  of the current location equals \<open>path key language\<close>. The pathname of a browser
  location is never the empty string, and for every such location \<open>isActive\<close> is true
  if and only if the pathname equals \<open>path key language\<close>; it is false whenever the pair
  does not resolve.
\<close>

theorem isActive_iff_pathname:
  "(isActive r key language
      \<longleftrightarrow> hasRoute r key language \<and> location_pathname (router r) = path r key language)
   \<and> (location_pathname (router r) \<noteq> '''' \<longrightarrow>
        (isActive r key language \<longleftrightarrow> location_pathname (router r) = path r key language))
   \<and> (\<not> hasRoute r key language \<longrightarrow> \<not> isActive r key language)"
  by (auto simp: isActive_def hasRoute_def path_def split: option.splits)

text \<open>Scenario A with the browser at \<^verbatim>\<open>/be/over-ons\<close>.\<close>

theorem isActive_iff_pathname_witness:
  "location_pathname (router routerA) = ''/be/over-ons''
   \<and> path routerA ''about'' ''be'' = ''/be/over-ons''
   \<and> isActive routerA ''about'' ''be''
   \<and> path routerA ''about'' ''en'' = ''/about''
   \<and> \<not> isActive routerA ''about'' ''en''
   \<and> \<not> hasRoute routerA ''about'' ''fr''
   \<and> \<not> isActive routerA ''about'' ''fr''"
  using isActive_iff_pathname [where r = routerA and key = "''about''" and language = "''be''"]
        isActive_iff_pathname [where r = routerA and key = "''about''" and language = "''en''"]
        isActive_iff_pathname [where r = routerA and key = "''about''" and language = "''fr''"]
  by (simp add: routerA_def scenarioA_def eval_defs)


section \<open>Absolute URLs\<close>

text \<open>
  C6, as the code has it. \<open>absolute\<close> removes one trailing slash of the base URL, if there
  is one, and one leading slash of the href, if there is one, and joins the two parts
  with a single slash. The part of the base URL before the joining slash ends with no
  slash unless the base URL ends with two, and the part of the href after it starts with
  no slash unless the href starts with two.
\<close>

theorem absolute_join:
  "\<exists>sb sh. absolute r baseUrl p = sb @ ''/'' @ sh
     \<and> baseUrl = (if suffix ''/'' baseUrl then sb @ ''/'' else sb)
     \<and> href r p = (if prefix ''/'' (href r p) then ''/'' @ sh else sh)
     \<and> (\<not> suffix ''//'' baseUrl \<longrightarrow> \<not> suffix ''/'' sb)
     \<and> (\<not> prefix ''//'' (href r p) \<longrightarrow> \<not> prefix ''/'' sh)"
proof (intro exI conjI)
  show "absolute r baseUrl p = stripTrailingSlash baseUrl @ ''/'' @ stripLeadingSlash (href r p)"
    by (simp add: absolute_def)
  show "baseUrl = (if suffix ''/'' baseUrl then stripTrailingSlash baseUrl @ ''/''
                   else stripTrailingSlash baseUrl)"
    by (rule stripTrailingSlash_cases)
  show "href r p = (if prefix ''/'' (href r p) then ''/'' @ stripLeadingSlash (href r p)
                    else stripLeadingSlash (href r p))"
    by (rule stripLeadingSlash_cases)
  show "\<not> suffix ''//'' baseUrl \<longrightarrow> \<not> suffix ''/'' (stripTrailingSlash baseUrl)"
    using stripTrailingSlash_no_slash by blast
  show "\<not> prefix ''//'' (href r p) \<longrightarrow> \<not> prefix ''/'' (stripLeadingSlash (href r p))"
    using stripLeadingSlash_no_slash by blast
qed

text \<open>Scenario D of the spec, with and without the trailing slash of the base URL.\<close>

theorem absolute_join_witness:
  "\<not> suffix ''//'' ''https://x.com/''
   \<and> href routerA \<lparr>href_key = ''about'', href_language = ''be'', href_query = None,
                    href_params = None, href_hash = None\<rparr> = ''/be/over-ons''
   \<and> absolute routerA ''https://x.com/''
        \<lparr>href_key = ''about'', href_language = ''be'', href_query = None,
         href_params = None, href_hash = None\<rparr> = ''https://x.com/be/over-ons''
   \<and> absolute routerA ''https://x.com''
        \<lparr>href_key = ''about'', href_language = ''be'', href_query = None,
         href_params = None, href_hash = None\<rparr> = ''https://x.com/be/over-ons''"
proof -
  let ?p = "\<lparr>href_key = ''about'', href_language = ''be'', href_query = None,
             href_params = None, href_hash = None\<rparr>"
  have h: "href routerA ?p = ''/be/over-ons''"
    by (simp add: routerA_def scenarioA_def eval_defs)
  have a: "absolute routerA ''https://x.com/'' ?p = ''https://x.com/be/over-ons''"
    using h by (simp add: absolute_def stripLeadingSlash_def stripTrailingSlash_def)
  have b: "absolute routerA ''https://x.com'' ?p = ''https://x.com/be/over-ons''"
    using h by (simp add: absolute_def stripLeadingSlash_def stripTrailingSlash_def)
  have s: "\<not> suffix ''//'' ''https://x.com/''"
    by (simp add: suffix_def)
  from absolute_join [where r = routerA and baseUrl = "''https://x.com/''" and p = ?p] h a b s
  show ?thesis by simp
qed

text \<open>
  The claim as stated fails for a base URL that ends with two slashes: only one is
  removed, and the other meets the joining slash.
\<close>

theorem absolute_double_slash_counterexample:
  "hasRoute routerA ''about'' ''be''
   \<and> href routerA \<lparr>href_key = ''about'', href_language = ''be'', href_query = None,
                    href_params = None, href_hash = None\<rparr> = ''/be/over-ons''
   \<and> absolute routerA ''https://x.com//''
        \<lparr>href_key = ''about'', href_language = ''be'', href_query = None,
         href_params = None, href_hash = None\<rparr> = ''https://x.com//be/over-ons''"
  by (simp add: routerA_def scenarioA_def eval_defs)

text \<open>
  C7, as the code has it. For a pair that does not resolve, \<open>href\<close> is the empty string
  and \<open>absolute\<close> yields the base URL followed by "/" when the base URL does not end
  with a slash, and the base URL itself when it does.
\<close>

theorem absolute_unresolved:
  "\<not> hasRoute r (href_key p) (href_language p) \<longrightarrow>
     href r p = ''''
     \<and> absolute r baseUrl p = (if suffix ''/'' baseUrl then baseUrl else baseUrl @ ''/'')"
proof
  assume "\<not> hasRoute r (href_key p) (href_language p)"
  then have h: "href r p = ''''"
    by (simp add: hasRoute_def href_def)
  then have "absolute r baseUrl p = stripTrailingSlash baseUrl @ ''/''"
    by (simp add: absolute_def stripLeadingSlash_def)
  with h show "href r p = ''''
     \<and> absolute r baseUrl p = (if suffix ''/'' baseUrl then baseUrl else baseUrl @ ''/'')"
    using stripTrailingSlash_cases [of baseUrl] by (simp split: if_splits)
qed

theorem absolute_unresolved_witness:
  "\<not> hasRoute routerA ''missing'' ''en''
   \<and> absolute routerA ''https://x.com''
        \<lparr>href_key = ''missing'', href_language = ''en'', href_query = None,
         href_params = None, href_hash = None\<rparr> = ''https://x.com/''
   \<and> absolute routerA ''https://x.com/''
        \<lparr>href_key = ''missing'', href_language = ''en'', href_query = None,
         href_params = None, href_hash = None\<rparr> = ''https://x.com/''"
proof -
  let ?p = "\<lparr>href_key = ''missing'', href_language = ''en'', href_query = None,
             href_params = None, href_hash = None\<rparr>"
  have h: "\<not> hasRoute routerA ''missing'' ''en''"
    by (simp add: routerA_def scenarioA_def eval_defs)
  have s1: "\<not> suffix ''/'' ''https://x.com''" and s2: "suffix ''/'' ''https://x.com/''"
    by (simp_all add: suffix_def)
  from absolute_unresolved [where r = routerA and p = ?p and baseUrl = "''https://x.com''"]
       absolute_unresolved [where r = routerA and p = ?p and baseUrl = "''https://x.com/''"]
       h s1 s2
  show ?thesis by simp
qed

text \<open>
  The claim as stated fails for a base URL that ends with a slash: the slash is removed
  before the joining slash is added, so the result is the base URL, not the base URL
  followed by another slash.
\<close>

theorem absolute_unresolved_counterexample:
  "\<not> (\<not> hasRoute routerA ''missing'' ''en'' \<longrightarrow>
        absolute routerA ''https://x.com/''
          \<lparr>href_key = ''missing'', href_language = ''en'', href_query = None,
           href_params = None, href_hash = None\<rparr> = ''https://x.com/'' @ ''/'')"
  by (simp add: routerA_def scenarioA_def eval_defs)


section \<open>A default language that is not supported\<close>

text \<open>
  What holds of the code: when the default language is not supported, the constructor
  drops every entry in the default language, and the path builder leaves its raw path
  unprefixed.
\<close>

lemma default_language_entry_dropped:
  assumes "defaultLanguage cfg \<notin> set (supportedLanguages cfg)"
    and "rl_language e = defaultLanguage cfg"
  shows "compileRoute cfg e = None \<and> buildPath cfg (rl_language e) (rl_path e) = rl_path e"
  using assms by (simp add: compileRoute_unsupported buildPath_def)

text \<open>
  C10 says that, the default language being unsupported, \<open>hasRoute\<close> of a key in the
  default language is false and \<open>path\<close> is the empty string for the dropped entries.
  The code departs from it where the unprefixed raw path of a dropped entry is the
  concrete path of a compiled one: with English the default language and only Belgian
  supported, the English home entry with raw path \<^verbatim>\<open>/be\<close> is dropped by the constructor,
  and (home, en) resolves all the same, to the route of the Belgian home page.
\<close>

theorem unsupported_default_resolves:
  "defaultLanguage unsupportedDefaultConfig \<notin> set (supportedLanguages unsupportedDefaultConfig)
   \<and> compileRoute unsupportedDefaultConfig
        \<lparr>rl_definition = ''home'', rl_language = ''en'', rl_path = ''/be''\<rparr> = None
   \<and> hasRoute (LuwioRouter_new ''/'' pathOnly unsupportedDefaultConfig) ''home'' ''en''
   \<and> path (LuwioRouter_new ''/'' pathOnly unsupportedDefaultConfig) ''home'' ''en'' = ''/be''
   \<and> route (LuwioRouter_new ''/'' pathOnly unsupportedDefaultConfig) ''home'' ''en''
       = route (LuwioRouter_new ''/'' pathOnly unsupportedDefaultConfig) ''home'' ''be''"
  by (simp add: eval_defs unsupportedDefaultConfig_def)

end
